theory Spec2Isabelle
  imports Complex_Main "HOL-Library.Word"
begin

section \<open>The WhisperKit C binding\<close>

text \<open>
  A shallow embedding of \<^verbatim>\<open>src/WhisperKit/WhisperKit.c\<close>. The binding wraps an
  inference engine whose header (\<^verbatim>\<open>whisper.h\<close>) is not part of the repository, so
  the engine is a parameter of every function: a record of the seven entry points the
  binding calls. Every C function takes the world (engine state, error stream, and the
  list of external calls made so far) and returns its result with the new world.
\<close>

subsection \<open>C data\<close>

type_synonym byte = "8 word"

type_synonym size_t = "64 word"

text \<open>
  A non-null \<^verbatim>\<open>struct whisper_context*\<close> is an address; \<^verbatim>\<open>WhisperContextRef\<close>
  (a \<^verbatim>\<open>void*\<close>) is such an address or \<^verbatim>\<open>NULL\<close> (\<open>None\<close>). A pointer to an array
  (the samples, a returned string) is \<open>None\<close> or the array it points to. A C \<^verbatim>\<open>int\<close>
  is its value: the binding compares such values and counts from 0 up to a segment
  count, and does no other arithmetic on them. Sizes are 64-bit words, and wrap.
\<close>

type_synonym whisper_context = nat

type_synonym WhisperContextRef = "whisper_context option"

datatype whisper_sampling_strategy = WHISPER_SAMPLING_GREEDY | WHISPER_SAMPLING_BEAM_SEARCH

text \<open>
  The two parameter structs of the engine. Only the fields the binding assigns are
  named; every other field of the struct lives in the extension part of the record
  (\<open>more\<close>), which the binding never touches.
\<close>

record whisper_context_params =
  use_gpu :: bool

record whisper_full_params =
  n_threads :: int
  max_tokens :: int
  speed_up :: bool
  single_segment :: bool
  print_special :: bool
  print_progress :: bool
  print_realtime :: bool
  print_timestamps :: bool
  language :: "string option"
  suppress_blank :: bool
  suppress_nst :: bool

text \<open>
  The result of a C function that may run into undefined behaviour (a read or write
  outside an allocated block).
\<close>

datatype 'a outcome = Undefined_behaviour | Returns 'a

subsection \<open>The engine and the C library\<close>

text \<open>
  The engine, over its own state \<open>'e\<close>. The two default-parameter constructors are
  constants of the engine; loading, freeing and decoding change the engine state; the
  segment count and the segment text are queries that read it. A \<^verbatim>\<open>const char*\<close>
  returned by the text query is \<open>None\<close> for \<^verbatim>\<open>NULL\<close>, or the bytes stored from the
  pointer on, where a terminating zero byte follows the last byte listed.
\<close>

record ('e, 'cp, 'fp, 's) engine =
  whisper_context_default_params :: "'cp whisper_context_params_scheme"
  whisper_init_from_file_with_params ::
    "string \<Rightarrow> 'cp whisper_context_params_scheme \<Rightarrow> 'e \<Rightarrow> whisper_context option \<times> 'e"
  whisper_free :: "whisper_context \<Rightarrow> 'e \<Rightarrow> 'e"
  whisper_full_default_params :: "whisper_sampling_strategy \<Rightarrow> 'fp whisper_full_params_scheme"
  whisper_full ::
    "whisper_context \<Rightarrow> 'fp whisper_full_params_scheme \<Rightarrow> 's list \<Rightarrow> int \<Rightarrow> 'e \<Rightarrow> int \<times> 'e"
  whisper_full_n_segments :: "whisper_context \<Rightarrow> 'e \<Rightarrow> int"
  whisper_full_get_segment_text :: "whisper_context \<Rightarrow> int \<Rightarrow> 'e \<Rightarrow> byte list option"

text \<open>
  The allocator: \<open>malloc L n\<close> is \<open>None\<close> when the allocation of \<open>n\<close> bytes fails, and
  otherwise the (uninitialised, hence arbitrary) initial byte at each offset of the block.
\<close>

record libc =
  malloc :: "size_t \<Rightarrow> (nat \<Rightarrow> byte) option"

text \<open>The build configuration: the preprocessor symbol tested in the source.\<close>

record build =
  GGML_USE_METAL :: bool

datatype ('cp, 'fp, 's) call =
    Context_default_params
  | Init_from_file_with_params string "'cp whisper_context_params_scheme"
  | Whisper_free whisper_context
  | Full_default_params whisper_sampling_strategy
  | Whisper_full whisper_context "'fp whisper_full_params_scheme" "'s list" int
  | Full_n_segments whisper_context
  | Full_get_segment_text whisper_context int
  | Malloc size_t
  | Free "byte list"

record ('e, 'cp, 'fp, 's) world =
  engine_state :: 'e
  stderr :: string
  calls :: "('cp, 'fp, 's) call list"

definition log_call ::
  "('cp, 'fp, 's) call \<Rightarrow> ('e, 'cp, 'fp, 's) world \<Rightarrow> ('e, 'cp, 'fp, 's) world" where
  "log_call c w = w\<lparr>calls := calls w @ [c]\<rparr>"

definition fprintf_stderr ::
  "string \<Rightarrow> ('e, 'cp, 'fp, 's) world \<Rightarrow> ('e, 'cp, 'fp, 's) world" where
  "fprintf_stderr msg w = w\<lparr>stderr := stderr w @ msg\<rparr>"

subsection \<open>Strings of the C library\<close>

text \<open>The characters of the C string stored in \<open>m\<close>: the bytes before the first zero.\<close>

definition c_string :: "byte list \<Rightarrow> byte list" where
  "c_string m = takeWhile (\<lambda>b. b \<noteq> 0) m"

definition strlen :: "byte list \<Rightarrow> size_t" where
  "strlen m = of_nat (length (c_string m))"

text \<open>
  \<open>strcat dest src\<close> on a block \<open>dest\<close> of exactly \<open>length dest\<close> bytes: the string in
  \<open>src\<close> and a terminator are written from the first zero byte of \<open>dest\<close> on. A block
  without a zero byte, or with too little room behind it, is undefined behaviour.
\<close>

definition strcat :: "byte list \<Rightarrow> byte list \<Rightarrow> byte list outcome" where
  "strcat dest src =
     (if 0 \<in> set dest then
        (let d = length (c_string dest); s = c_string src in
         if d + length s + 1 \<le> length dest
         then Returns (take d dest @ s @ [0] @ drop (d + length s + 1) dest)
         else Undefined_behaviour)
      else Undefined_behaviour)"

text \<open>The assignment \<^verbatim>\<open>buf[i] = v\<close>.\<close>

definition store :: "byte list \<Rightarrow> nat \<Rightarrow> byte \<Rightarrow> byte list outcome" where
  "store buf i v = (if i < length buf then Returns (buf[i := v]) else Undefined_behaviour)"

text \<open>\<^verbatim>\<open>printf\<close>'s \<^verbatim>\<open>%d\<close>.\<close>

function decimal :: "nat \<Rightarrow> string" where
  "decimal n = (if n < 10 then [''0123456789'' ! n]
                else decimal (n div 10) @ [''0123456789'' ! (n mod 10)])"
  by pat_completeness auto
termination
  by (relation "measure id") auto

declare decimal.simps [simp del]

definition show_int :: "int \<Rightarrow> string" where
  "show_int i = (if i < 0 then CHR ''-'' # decimal (nat (- i)) else decimal (nat i))"

subsection \<open>Calls into the engine and the allocator\<close>

definition call_context_default_params ::
  "('e, 'cp, 'fp, 's) engine \<Rightarrow> ('e, 'cp, 'fp, 's) world
     \<Rightarrow> 'cp whisper_context_params_scheme \<times> ('e, 'cp, 'fp, 's) world" where
  "call_context_default_params E w =
     (whisper_context_default_params E, log_call Context_default_params w)"

definition call_init_from_file_with_params ::
  "('e, 'cp, 'fp, 's) engine \<Rightarrow> string \<Rightarrow> 'cp whisper_context_params_scheme
     \<Rightarrow> ('e, 'cp, 'fp, 's) world \<Rightarrow> whisper_context option \<times> ('e, 'cp, 'fp, 's) world" where
  "call_init_from_file_with_params E path cparams w =
     (case whisper_init_from_file_with_params E path cparams (engine_state w) of
        (ctx, e') \<Rightarrow>
          (ctx, log_call (Init_from_file_with_params path cparams) (w\<lparr>engine_state := e'\<rparr>)))"

definition call_whisper_free ::
  "('e, 'cp, 'fp, 's) engine \<Rightarrow> whisper_context \<Rightarrow> ('e, 'cp, 'fp, 's) world
     \<Rightarrow> ('e, 'cp, 'fp, 's) world" where
  "call_whisper_free E c w =
     log_call (Whisper_free c) (w\<lparr>engine_state := whisper_free E c (engine_state w)\<rparr>)"

definition call_full_default_params ::
  "('e, 'cp, 'fp, 's) engine \<Rightarrow> whisper_sampling_strategy \<Rightarrow> ('e, 'cp, 'fp, 's) world
     \<Rightarrow> 'fp whisper_full_params_scheme \<times> ('e, 'cp, 'fp, 's) world" where
  "call_full_default_params E strategy w =
     (whisper_full_default_params E strategy, log_call (Full_default_params strategy) w)"

definition call_whisper_full ::
  "('e, 'cp, 'fp, 's) engine \<Rightarrow> whisper_context \<Rightarrow> 'fp whisper_full_params_scheme
     \<Rightarrow> 's list \<Rightarrow> int \<Rightarrow> ('e, 'cp, 'fp, 's) world \<Rightarrow> int \<times> ('e, 'cp, 'fp, 's) world" where
  "call_whisper_full E c params samples n_samples w =
     (case whisper_full E c params samples n_samples (engine_state w) of
        (result, e') \<Rightarrow>
          (result, log_call (Whisper_full c params samples n_samples) (w\<lparr>engine_state := e'\<rparr>)))"

definition call_full_n_segments ::
  "('e, 'cp, 'fp, 's) engine \<Rightarrow> whisper_context \<Rightarrow> ('e, 'cp, 'fp, 's) world
     \<Rightarrow> int \<times> ('e, 'cp, 'fp, 's) world" where
  "call_full_n_segments E c w =
     (whisper_full_n_segments E c (engine_state w), log_call (Full_n_segments c) w)"

definition call_full_get_segment_text ::
  "('e, 'cp, 'fp, 's) engine \<Rightarrow> whisper_context \<Rightarrow> int \<Rightarrow> ('e, 'cp, 'fp, 's) world
     \<Rightarrow> byte list option \<times> ('e, 'cp, 'fp, 's) world" where
  "call_full_get_segment_text E c i w =
     (whisper_full_get_segment_text E c i (engine_state w), log_call (Full_get_segment_text c i) w)"

definition call_malloc ::
  "libc \<Rightarrow> size_t \<Rightarrow> ('e, 'cp, 'fp, 's) world \<Rightarrow> byte list option \<times> ('e, 'cp, 'fp, 's) world" where
  "call_malloc L n w =
     (map_option (\<lambda>init. map init [0..<unat n]) (malloc L n), log_call (Malloc n) w)"

definition call_free ::
  "byte list \<Rightarrow> ('e, 'cp, 'fp, 's) world \<Rightarrow> ('e, 'cp, 'fp, 's) world" where
  "call_free buf w = log_call (Free buf) w"

subsection \<open>The binding\<close>

text \<open>
  The six functions of \<^verbatim>\<open>WhisperKit.c\<close>. The model path is the characters of the C
  string passed in. The body of whisper_kit_transcribe is in four parts: the parameter
  assignments, the two loops, the lines after a successful decode, and the function
  itself.
\<close>

definition whisper_kit_init ::
  "('e, 'cp, 'fp, 's) engine \<Rightarrow> string \<Rightarrow> ('e, 'cp, 'fp, 's) world
     \<Rightarrow> WhisperContextRef \<times> ('e, 'cp, 'fp, 's) world" where
  "whisper_kit_init E model_path w =
     (case call_context_default_params E w of
        (cparams0, w1) \<Rightarrow>
          (let cparams = cparams0\<lparr>use_gpu := True\<rparr> in
           case call_init_from_file_with_params E model_path cparams w1 of
             (ctx, w2) \<Rightarrow>
               if ctx = None
               then (None,
                     fprintf_stderr
                       (''whisper_kit: failed to load model from '' @ model_path @ [CHR 0x0A]) w2)
               else (ctx, w2)))"

definition whisper_kit_free ::
  "('e, 'cp, 'fp, 's) engine \<Rightarrow> WhisperContextRef \<Rightarrow> ('e, 'cp, 'fp, 's) world
     \<Rightarrow> ('e, 'cp, 'fp, 's) world" where
  "whisper_kit_free E ctx w = (case ctx of None \<Rightarrow> w | Some c \<Rightarrow> call_whisper_free E c w)"

text \<open>The assignments of lines 35 to 45, applied to the parameters of line 34.\<close>

definition set_transcribe_params ::
  "'fp whisper_full_params_scheme \<Rightarrow> 'fp whisper_full_params_scheme" where
  "set_transcribe_params params =
     params
       \<lparr>print_progress := False,
        print_special := False,
        print_realtime := False,
        print_timestamps := False,
        single_segment := True,
        max_tokens := 0,
        language := Some ''en'',
        n_threads := 4,
        speed_up := False,
        suppress_blank := True,
        suppress_nst := True\<rparr>"

text \<open>The first loop (lines 65 to 70), from index \<open>i\<close> on.\<close>

function total_len_loop ::
  "('e, 'cp, 'fp, 's) engine \<Rightarrow> whisper_context \<Rightarrow> int \<Rightarrow> int \<Rightarrow> size_t
     \<Rightarrow> ('e, 'cp, 'fp, 's) world \<Rightarrow> size_t \<times> ('e, 'cp, 'fp, 's) world" where
  "total_len_loop E wctx n_segments i total_len w =
     (if i < n_segments then
        (case call_full_get_segment_text E wctx i w of
           (text, w1) \<Rightarrow>
             total_len_loop E wctx n_segments (i + 1)
               (case text of None \<Rightarrow> total_len | Some t \<Rightarrow> total_len + strlen t) w1)
      else (total_len, w))"
  by pat_completeness auto
termination
  by (relation "measure (\<lambda>(E, wctx, n_segments, i, total_len, w). nat (n_segments - i))") auto

declare total_len_loop.simps [simp del]

text \<open>The second loop (lines 80 to 85), from index \<open>i\<close> on.\<close>

function concat_loop ::
  "('e, 'cp, 'fp, 's) engine \<Rightarrow> whisper_context \<Rightarrow> int \<Rightarrow> int \<Rightarrow> byte list
     \<Rightarrow> ('e, 'cp, 'fp, 's) world \<Rightarrow> byte list outcome \<times> ('e, 'cp, 'fp, 's) world" where
  "concat_loop E wctx n_segments i result_text w =
     (if i < n_segments then
        (case call_full_get_segment_text E wctx i w of
           (text, w1) \<Rightarrow>
             (case text of
                None \<Rightarrow> concat_loop E wctx n_segments (i + 1) result_text w1
              | Some t \<Rightarrow>
                  (case strcat result_text t of
                     Undefined_behaviour \<Rightarrow> (Undefined_behaviour, w1)
                   | Returns result_text' \<Rightarrow>
                       concat_loop E wctx n_segments (i + 1) result_text' w1)))
      else (Returns result_text, w))"
  by pat_completeness auto
termination
  by (relation "measure (\<lambda>(E, wctx, n_segments, i, result_text, w). nat (n_segments - i))") auto

declare concat_loop.simps [simp del]

text \<open>Lines 54 to 87: the part of \<^verbatim>\<open>whisper_kit_transcribe\<close> after a successful decode.\<close>

definition collect_segments ::
  "('e, 'cp, 'fp, 's) engine \<Rightarrow> libc \<Rightarrow> whisper_context \<Rightarrow> ('e, 'cp, 'fp, 's) world
     \<Rightarrow> byte list option outcome \<times> ('e, 'cp, 'fp, 's) world" where
  "collect_segments E L wctx w =
     (case call_full_n_segments E wctx w of
        (n_segments, w1) \<Rightarrow>
          (if n_segments = 0 then
             (case call_malloc L 1 w1 of
                (empty', w2) \<Rightarrow>
                  (case empty' of
                     None \<Rightarrow> (Returns None, w2)
                   | Some buf \<Rightarrow>
                       (case store buf 0 0 of
                          Undefined_behaviour \<Rightarrow> (Undefined_behaviour, w2)
                        | Returns buf' \<Rightarrow> (Returns (Some buf'), w2))))
           else
             (case total_len_loop E wctx n_segments 0 0 w1 of
                (total_len, w2) \<Rightarrow>
                  (case call_malloc L (total_len + 1) w2 of
                     (result_text, w3) \<Rightarrow>
                       (case result_text of
                          None \<Rightarrow> (Returns None, w3)
                        | Some buf \<Rightarrow>
                            (case store buf 0 0 of
                               Undefined_behaviour \<Rightarrow> (Undefined_behaviour, w3)
                             | Returns buf0 \<Rightarrow>
                                 (case concat_loop E wctx n_segments 0 buf0 w3 of
                                    (r, w4) \<Rightarrow>
                                      (case r of
                                         Undefined_behaviour \<Rightarrow> (Undefined_behaviour, w4)
                                       | Returns buf' \<Rightarrow> (Returns (Some buf'), w4)))))))))"

definition whisper_kit_transcribe ::
  "('e, 'cp, 'fp, 's) engine \<Rightarrow> libc \<Rightarrow> WhisperContextRef \<Rightarrow> 's list option \<Rightarrow> int
     \<Rightarrow> ('e, 'cp, 'fp, 's) world \<Rightarrow> byte list option outcome \<times> ('e, 'cp, 'fp, 's) world" where
  "whisper_kit_transcribe E L ctx samples n_samples w =
     (case ctx of
        None \<Rightarrow> (Returns None, w)
      | Some wctx \<Rightarrow>
          (case samples of
             None \<Rightarrow> (Returns None, w)
           | Some smp \<Rightarrow>
               (if n_samples \<le> 0 then (Returns None, w)
                else
                  (case call_full_default_params E WHISPER_SAMPLING_GREEDY w of
                     (params0, w1) \<Rightarrow>
                       (case call_whisper_full E wctx (set_transcribe_params params0)
                               smp n_samples w1 of
                          (result, w2) \<Rightarrow>
                            (if result \<noteq> 0
                             then (Returns None,
                                   fprintf_stderr
                                     (''whisper_kit: transcription failed with error ''
                                        @ show_int result @ [CHR 0x0A])
                                     w2)
                             else collect_segments E L wctx w2))))))"

definition whisper_kit_free_string ::
  "byte list option \<Rightarrow> ('e, 'cp, 'fp, 's) world \<Rightarrow> ('e, 'cp, 'fp, 's) world" where
  "whisper_kit_free_string str w = (case str of None \<Rightarrow> w | Some buf \<Rightarrow> call_free buf w)"

definition whisper_kit_metal_available ::
  "build \<Rightarrow> ('e, 'cp, 'fp, 's) world \<Rightarrow> bool \<times> ('e, 'cp, 'fp, 's) world" where
  "whisper_kit_metal_available B w = (if GGML_USE_METAL B then (True, w) else (False, w))"

definition whisper_kit_version ::
  "('e, 'cp, 'fp, 's) world \<Rightarrow> string \<times> ('e, 'cp, 'fp, 's) world" where
  "whisper_kit_version w = (''1.0.0'', w)"

subsection \<open>Observations\<close>

text \<open>
  The C string of segment \<open>i\<close> in engine state \<open>e\<close> (empty when the query returns
  \<^verbatim>\<open>NULL\<close>), and the strings of segments \<open>i, \<dots>, n - 1\<close> in a row. The parameters
  whisper_kit_transcribe hands to the decoder and whisper_kit_init hands to the loader,
  and the decode and load parameters found in a list of calls.
\<close>

definition segment_string ::
  "('e, 'cp, 'fp, 's) engine \<Rightarrow> whisper_context \<Rightarrow> 'e \<Rightarrow> int \<Rightarrow> byte list" where
  "segment_string E c e i =
     (case whisper_full_get_segment_text E c i e of None \<Rightarrow> [] | Some t \<Rightarrow> c_string t)"

definition transcript ::
  "('e, 'cp, 'fp, 's) engine \<Rightarrow> whisper_context \<Rightarrow> 'e \<Rightarrow> int \<Rightarrow> int \<Rightarrow> byte list" where
  "transcript E c e i n = concat (map (segment_string E c e) [i..n - 1])"

definition transcribe_params ::
  "('e, 'cp, 'fp, 's) engine \<Rightarrow> 'fp whisper_full_params_scheme" where
  "transcribe_params E = set_transcribe_params (whisper_full_default_params E WHISPER_SAMPLING_GREEDY)"

definition decode_params_of ::
  "('cp, 'fp, 's) call list \<Rightarrow> 'fp whisper_full_params_scheme list" where
  "decode_params_of cs =
     concat (map (\<lambda>c. case c of Whisper_full wctx params smp n \<Rightarrow> [params] | _ \<Rightarrow> []) cs)"

definition load_params_of ::
  "('cp, 'fp, 's) call list \<Rightarrow> 'cp whisper_context_params_scheme list" where
  "load_params_of cs =
     concat (map (\<lambda>c. case c of Init_from_file_with_params path cparams \<Rightarrow> [cparams] | _ \<Rightarrow> []) cs)"

definition init_params ::
  "('e, 'cp, 'fp, 's) engine \<Rightarrow> 'cp whisper_context_params_scheme" where
  "init_params E = (whisper_context_default_params E)\<lparr>use_gpu := True\<rparr>"

subsection \<open>An example engine\<close>

text \<open>
  A small engine to evaluate the binding on. Its state is the segment list of the last
  decode. It loads one model path only; decoding one sample fails with status \<open>-3\<close>,
  two samples give no segment, and anything longer gives three segments (``Hi'', a
  \<^verbatim>\<open>NULL\<close> text, and `` you'').
\<close>

definition example_engine :: "(byte list option list, unit, unit, real) engine" where
  "example_engine =
     \<lparr>whisper_context_default_params = \<lparr>use_gpu = False\<rparr>,
      whisper_init_from_file_with_params =
        (\<lambda>path cparams e. if path = ''base.en.bin'' then (Some 1, e) else (None, e)),
      whisper_free = (\<lambda>c e. []),
      whisper_full_default_params =
        (\<lambda>strategy. \<lparr>n_threads = 1, max_tokens = 32, speed_up = True, single_segment = False,
           print_special = True, print_progress = True, print_realtime = True,
           print_timestamps = True, language = None, suppress_blank = False,
           suppress_nst = False\<rparr>),
      whisper_full =
        (\<lambda>c params samples n e.
           if n = 1 then (- 3, e)
           else if n = 2 then (0, [])
           else (0, [Some [0x48, 0x69], None, Some [0x20, 0x79, 0x6F, 0x75]])),
      whisper_full_n_segments = (\<lambda>c e. int (length e)),
      whisper_full_get_segment_text =
        (\<lambda>c i e. if 0 \<le> i \<and> i < int (length e) then e ! nat i else None)\<rparr>"

definition example_world :: "(byte list option list, unit, unit, real) world" where
  "example_world = \<lparr>engine_state = [], stderr = [], calls = []\<rparr>"

definition example_libc :: libc where
  "example_libc = \<lparr>malloc = (\<lambda>n. Some (\<lambda>i. 0xAA))\<rparr>"

definition exhausted_libc :: libc where
  "exhausted_libc = \<lparr>malloc = (\<lambda>n. None)\<rparr>"

section \<open>Properties\<close>

subsection \<open>The two loops\<close>

lemma transcript_empty: "n \<le> i \<Longrightarrow> transcript E c e i n = []"
  by (simp add: transcript_def)

lemma transcript_step:
  "i < n \<Longrightarrow> transcript E c e i n = segment_string E c e i @ transcript E c e (i + 1) n"
  by (simp add: transcript_def upto_rec1)

lemma segment_reads_step: "i < n \<Longrightarrow> map f [i..n - 1] = f i # map f [i + 1..n - 1]"
  by (simp add: upto_rec1)

lemma total_len_loop_eq:
  "total_len_loop E c n i len0 w =
     (len0 + of_nat (length (transcript E c (engine_state w) i n)),
      w\<lparr>calls := calls w @ map (Full_get_segment_text c) [i..n - 1]\<rparr>)"
proof (induction E c n i len0 w rule: total_len_loop.induct)
  case (1 E c n i len0 w)
  show ?case
  proof (cases "i < n")
    case False
    then show ?thesis
      by (subst total_len_loop.simps) (simp add: transcript_empty)
  next
    case True
    obtain tx w1 where call: "call_full_get_segment_text E c i w = (tx, w1)"
      by (cases "call_full_get_segment_text E c i w")
    then have tx: "tx = whisper_full_get_segment_text E c i (engine_state w)"
      and w1: "w1 = w\<lparr>calls := calls w @ [Full_get_segment_text c i]\<rparr>"
      by (simp_all add: call_full_get_segment_text_def log_call_def)
    have len_eq: "(case tx of None \<Rightarrow> len0 | Some t \<Rightarrow> len0 + strlen t) =
                 len0 + of_nat (length (segment_string E c (engine_state w) i))"
      by (simp add: tx segment_string_def strlen_def split: option.split)
    have "total_len_loop E c n i len0 w =
            total_len_loop E c n (i + 1)
              (case tx of None \<Rightarrow> len0 | Some t \<Rightarrow> len0 + strlen t) w1"
      using True call by (subst total_len_loop.simps) simp
    also have "\<dots> = ((case tx of None \<Rightarrow> len0 | Some t \<Rightarrow> len0 + strlen t)
                        + of_nat (length (transcript E c (engine_state w1) (i + 1) n)),
                      w1\<lparr>calls := calls w1 @ map (Full_get_segment_text c) [i + 1..n - 1]\<rparr>)"
      using "1.IH" [OF True call [symmetric]] .
    also have "\<dots> = (len0 + of_nat (length (transcript E c (engine_state w) i n)),
                      w\<lparr>calls := calls w @ map (Full_get_segment_text c) [i..n - 1]\<rparr>)"
      using True by (simp add: len_eq w1 transcript_step [of i n] segment_reads_step [of i n])
    finally show ?thesis .
  qed
qed

lemma c_string_terminated: "0 \<notin> set pre \<Longrightarrow> c_string (pre @ 0 # rest) = pre"
  by (induction pre) (simp_all add: c_string_def)

lemma c_string_no_zero: "0 \<notin> set (c_string t)"
  by (auto simp: c_string_def dest: set_takeWhileD)

lemma strcat_terminated:
  assumes "0 \<notin> set pre" and "length (c_string t) \<le> length rest"
  shows "strcat (pre @ 0 # rest) t = Returns (pre @ c_string t @ 0 # drop (length (c_string t)) rest)"
  using assms by (simp add: strcat_def c_string_terminated Let_def)

lemma concat_loop_eq:
  assumes "result_text = pre @ 0 # rest" and "0 \<notin> set pre"
    and "length (transcript E c (engine_state w) i n) \<le> length rest"
  shows "concat_loop E c n i result_text w =
           (Returns (pre @ transcript E c (engine_state w) i n
                       @ 0 # drop (length (transcript E c (engine_state w) i n)) rest),
            w\<lparr>calls := calls w @ map (Full_get_segment_text c) [i..n - 1]\<rparr>)"
  using assms
proof (induction E c n i result_text w arbitrary: pre rest rule: concat_loop.induct)
  case (1 E c n i result_text w)
  show ?case
  proof (cases "i < n")
    case False
    then show ?thesis
      using "1.prems" by (subst concat_loop.simps) (simp add: transcript_empty)
  next
    case True
    let ?e = "engine_state w"
    let ?w1 = "w\<lparr>calls := calls w @ [Full_get_segment_text c i]\<rparr>"
    let ?s = "segment_string E c ?e i"
    let ?r = "transcript E c ?e (i + 1) n"
    have call: "call_full_get_segment_text E c i w =
                  (whisper_full_get_segment_text E c i ?e, ?w1)"
      by (simp add: call_full_get_segment_text_def log_call_def)
    have split: "transcript E c ?e i n = ?s @ ?r"
      using True by (rule transcript_step)
    have reads: "map (Full_get_segment_text c) [i..n - 1] =
                   Full_get_segment_text c i # map (Full_get_segment_text c) [i + 1..n - 1]"
      using True by (rule segment_reads_step)
    show ?thesis
    proof (cases "whisper_full_get_segment_text E c i ?e")
      case None
      then have s: "?s = []"
        by (simp add: segment_string_def)
      have "concat_loop E c n i result_text w = concat_loop E c n (i + 1) result_text ?w1"
        using True None call by (subst concat_loop.simps) simp
      also have "\<dots> = (Returns (pre @ ?r @ 0 # drop (length ?r) rest),
                         ?w1\<lparr>calls := calls ?w1 @ map (Full_get_segment_text c) [i + 1..n - 1]\<rparr>)"
        using "1.IH"(1) [OF True call [symmetric] None "1.prems"(1,2)] "1.prems"(3)
        by (simp add: split s)
      finally show ?thesis
        by (simp add: split s reads)
    next
      case (Some t)
      then have s: "?s = c_string t"
        by (simp add: segment_string_def)
      have room: "length (c_string t) + length ?r \<le> length rest"
        using "1.prems"(3) by (simp add: split s)
      have cat: "strcat result_text t =
                   Returns ((pre @ c_string t) @ 0 # drop (length (c_string t)) rest)"
        using strcat_terminated [of pre t rest] "1.prems"(1,2) room by simp
      have "concat_loop E c n i result_text w =
              concat_loop E c n (i + 1)
                ((pre @ c_string t) @ 0 # drop (length (c_string t)) rest) ?w1"
        using True Some call cat by (subst concat_loop.simps) simp
      also have "\<dots> = (Returns ((pre @ c_string t) @ ?r
                           @ 0 # drop (length ?r) (drop (length (c_string t)) rest)),
                         ?w1\<lparr>calls := calls ?w1 @ map (Full_get_segment_text c) [i + 1..n - 1]\<rparr>)"
      proof -
        have "0 \<notin> set (pre @ c_string t)"
          using "1.prems"(2) c_string_no_zero [of t] by simp
        moreover have "length (transcript E c (engine_state ?w1) (i + 1) n)
                         \<le> length (drop (length (c_string t)) rest)"
          using room by simp
        ultimately show ?thesis
          using "1.IH"(2) [OF True call [symmetric] Some cat refl] by simp
      qed
      finally show ?thesis
        by (simp add: split s reads add.commute)
    qed
  qed
qed

text \<open>The bound matters: in a block with room for one character the copy overruns.\<close>

lemma concat_loop_overruns_short_block:
  "fst (concat_loop example_engine 1 3 0 [0, 0xAA]
          (example_world\<lparr>engine_state := [Some [0x48, 0x69], None, Some [0x20, 0x79, 0x6F, 0x75]]\<rparr>))
     = Undefined_behaviour"
  by (simp add: concat_loop.simps call_full_get_segment_text_def log_call_def strcat_def
        c_string_def example_engine_def example_world_def)

lemma decode_params_of_append:
  "decode_params_of (cs @ ds) = decode_params_of cs @ decode_params_of ds"
  by (simp add: decode_params_of_def)

lemma decode_params_of_reads: "decode_params_of (map (Full_get_segment_text c) is) = []"
  by (induction "is") (simp_all add: decode_params_of_def)

lemma concat_loop_decode_params:
  "decode_params_of (calls (snd (concat_loop E c n i result_text w))) = decode_params_of (calls w)"
proof (induction E c n i result_text w rule: concat_loop.induct)
  case (1 E c n i result_text w)
  let ?w1 = "w\<lparr>calls := calls w @ [Full_get_segment_text c i]\<rparr>"
  have call: "call_full_get_segment_text E c i w =
                (whisper_full_get_segment_text E c i (engine_state w), ?w1)"
    by (simp add: call_full_get_segment_text_def log_call_def)
  have w1: "decode_params_of (calls ?w1) = decode_params_of (calls w)"
    by (simp add: decode_params_of_def)
  show ?case
  proof (cases "i < n")
    case False
    then show ?thesis
      by (subst concat_loop.simps) simp
  next
    case True
    show ?thesis
    proof (cases "whisper_full_get_segment_text E c i (engine_state w)")
      case None
      have "concat_loop E c n i result_text w = concat_loop E c n (i + 1) result_text ?w1"
        using True None call by (subst concat_loop.simps) simp
      then show ?thesis
        using "1.IH"(1) [OF True call [symmetric] None] w1 by simp
    next
      case (Some t)
      show ?thesis
      proof (cases "strcat result_text t")
        case Undefined_behaviour
        have "concat_loop E c n i result_text w = (Undefined_behaviour, ?w1)"
          using True Some call Undefined_behaviour by (subst concat_loop.simps) simp
        then show ?thesis
          using w1 by simp
      next
        case (Returns result_text')
        have "concat_loop E c n i result_text w = concat_loop E c n (i + 1) result_text' ?w1"
          using True Some call Returns by (subst concat_loop.simps) simp
        then show ?thesis
          using "1.IH"(2) [OF True call [symmetric] Some Returns] w1 by simp
      qed
    qed
  qed
qed

lemma decode_params_of_log_call:
  "decode_params_of (calls (log_call x w)) =
     decode_params_of (calls w) @ (case x of Whisper_full wctx params smp n \<Rightarrow> [params] | _ \<Rightarrow> [])"
  by (simp add: log_call_def decode_params_of_def)

lemma collect_segments_decode_params:
  "decode_params_of (calls (snd (collect_segments E L c w))) = decode_params_of (calls w)"
proof -
  let ?n = "whisper_full_n_segments E c (engine_state w)"
  let ?w1 = "log_call (Full_n_segments c) w"
  have w1: "decode_params_of (calls ?w1) = decode_params_of (calls w)"
    by (simp add: decode_params_of_log_call)
  show ?thesis
  proof (cases "?n = 0")
    case True
    then show ?thesis
      by (simp add: collect_segments_def call_full_n_segments_def call_malloc_def
            decode_params_of_log_call split: option.split outcome.split)
  next
    case False
    obtain len w2 where loop: "total_len_loop E c ?n 0 0 ?w1 = (len, w2)"
      by (cases "total_len_loop E c ?n 0 0 ?w1")
    then have w2: "decode_params_of (calls w2) = decode_params_of (calls w)"
      using w1 by (auto simp: total_len_loop_eq decode_params_of_append decode_params_of_reads)
    let ?w3 = "log_call (Malloc (len + 1)) w2"
    have w3: "decode_params_of (calls ?w3) = decode_params_of (calls w)"
      using w2 by (simp add: decode_params_of_log_call)
    have body: "collect_segments E L c w =
                  (case map_option (\<lambda>init. map init [0..<unat (len + 1)]) (malloc L (len + 1)) of
                     None \<Rightarrow> (Returns None, ?w3)
                   | Some buf \<Rightarrow>
                       (case store buf 0 0 of
                          Undefined_behaviour \<Rightarrow> (Undefined_behaviour, ?w3)
                        | Returns buf0 \<Rightarrow>
                            (case concat_loop E c ?n 0 buf0 ?w3 of
                               (r, w4) \<Rightarrow>
                                 (case r of
                                    Undefined_behaviour \<Rightarrow> (Undefined_behaviour, w4)
                                  | Returns buf' \<Rightarrow> (Returns (Some buf'), w4)))))"
      using False loop by (simp add: collect_segments_def call_full_n_segments_def call_malloc_def)
    have copy: "decode_params_of (calls w4) = decode_params_of (calls w)"
      if "concat_loop E c ?n 0 buf0 ?w3 = (r, w4)" for buf0 r w4
      using concat_loop_decode_params [of E c ?n 0 buf0 ?w3] that w3 by simp
    show ?thesis
      unfolding body using w3 by (auto split: option.split outcome.split prod.split dest: copy)
  qed
qed

subsection \<open>From the decoder's result to the returned string\<close>

lemma unat_size_plus_one:
  assumes "k + 1 < 2 ^ 64"
  shows "unat (of_nat k + 1 :: size_t) = Suc k" and "unat (of_nat k :: size_t) = k"
proof -
  have "of_nat k + 1 = (of_nat (Suc k) :: size_t)"
    by simp
  then show "unat (of_nat k + 1 :: size_t) = Suc k"
    using assms by (simp only: unat_of_nat) simp
  show "unat (of_nat k :: size_t) = k"
    using assms by (simp add: unat_of_nat)
qed

lemma length_transcript:
  "length (transcript E c e i n) =
     (\<Sum>j\<leftarrow>[i..n - 1]. case whisper_full_get_segment_text E c j e of
                          None \<Rightarrow> 0 | Some t \<Rightarrow> length (c_string t))"
proof -
  have "length \<circ> segment_string E c e =
          (\<lambda>j. case whisper_full_get_segment_text E c j e of
                 None \<Rightarrow> 0 | Some t \<Rightarrow> length (c_string t))"
    by (auto simp: segment_string_def split: option.split)
  then show ?thesis
    by (simp add: transcript_def length_concat)
qed

lemma transcript_cases:
  "transcript E c e i n =
     concat (map (\<lambda>j. case whisper_full_get_segment_text E c j e of
                         None \<Rightarrow> [] | Some t \<Rightarrow> c_string t) [i..n - 1])"
proof -
  have "segment_string E c e =
          (\<lambda>j. case whisper_full_get_segment_text E c j e of None \<Rightarrow> [] | Some t \<Rightarrow> c_string t)"
    by (auto simp: segment_string_def)
  then show ?thesis
    by (simp add: transcript_def)
qed

lemma collect_segments_eq:
  assumes n: "whisper_full_n_segments E c (engine_state w) = n" "n \<noteq> 0"
    and fits: "length (transcript E c (engine_state w) 0 n) + 1 < 2 ^ 64"
    and alloc: "malloc L (of_nat (length (transcript E c (engine_state w) 0 n)) + 1) = Some init"
  shows "collect_segments E L c w =
           (Returns (Some (transcript E c (engine_state w) 0 n @ [0])),
            w\<lparr>calls := calls w @ [Full_n_segments c]
                        @ map (Full_get_segment_text c) [0..n - 1]
                        @ [Malloc (of_nat (length (transcript E c (engine_state w) 0 n)) + 1)]
                        @ map (Full_get_segment_text c) [0..n - 1]\<rparr>)"
proof -
  let ?T = "transcript E c (engine_state w) 0 n"
  let ?size = "of_nat (length ?T) + 1 :: size_t"
  let ?w1 = "log_call (Full_n_segments c) w"
  let ?w2 = "?w1\<lparr>calls := calls ?w1 @ map (Full_get_segment_text c) [0..n - 1]\<rparr>"
  let ?w3 = "log_call (Malloc ?size) ?w2"
  let ?rest = "map (\<lambda>i. init (Suc i)) [0..<length ?T]"
  have first: "total_len_loop E c n 0 0 ?w1 = (of_nat (length ?T), ?w2)"
    by (simp add: total_len_loop_eq log_call_def)
  have block: "map init [0..<unat ?size] = init 0 # ?rest"
    using unat_size_plus_one(1) [OF fits] by (simp only: map_upt_Suc)
  have store: "store (map init [0..<unat ?size]) 0 0 = Returns (0 # ?rest)"
    unfolding block by (simp add: store_def)
  have second: "concat_loop E c n 0 (0 # ?rest) ?w3 =
                  (Returns (?T @ [0]),
                   ?w3\<lparr>calls := calls ?w3 @ map (Full_get_segment_text c) [0..n - 1]\<rparr>)"
  proof -
    have "length (transcript E c (engine_state ?w3) 0 n) \<le> length ?rest"
      by (simp add: log_call_def)
    from concat_loop_eq [where pre = "[]" and rest = ?rest, OF refl _ this] show ?thesis
      by (simp add: log_call_def)
  qed
  have body: "collect_segments E L c w =
                (case concat_loop E c n 0 (0 # ?rest) ?w3 of
                   (r, w4) \<Rightarrow>
                     (case r of
                        Undefined_behaviour \<Rightarrow> (Undefined_behaviour, w4)
                      | Returns buf' \<Rightarrow> (Returns (Some buf'), w4)))"
    using n alloc
    by (simp add: collect_segments_def call_full_n_segments_def first call_malloc_def store)
  show ?thesis
    unfolding body second by (simp add: log_call_def)
qed

lemma transcribe_decoded:
  assumes "ctx = Some c" and "samples = Some smp" and "0 < n_samples"
    and "whisper_full E c (transcribe_params E) smp n_samples (engine_state w) = (0, e)"
  shows "whisper_kit_transcribe E L ctx samples n_samples w =
           collect_segments E L c
             (w\<lparr>engine_state := e,
               calls := calls w @ [Full_default_params WHISPER_SAMPLING_GREEDY,
                                   Whisper_full c (transcribe_params E) smp n_samples]\<rparr>)"
  using assms
  by (simp add: whisper_kit_transcribe_def call_full_default_params_def call_whisper_full_def
        transcribe_params_def log_call_def)

section \<open>The claims\<close>

subsection \<open>Transcription\<close>

text \<open>
  C1: a call of whisper_kit_transcribe with a handle, a sample buffer and a positive
  count, in which the decoder returns status 0, the engine reports at least one segment
  and the allocation succeeds, returns the strings of segments \<open>0, \<dots>, n - 1\<close> in
  index order with nothing between them, followed by the terminator. The calls show the
  order of the work: every segment text is read once to add up the length, then one
  block of that length plus one is allocated, then every segment text is read again to
  be copied. (A segment whose text is \<^verbatim>\<open>NULL\<close> has the empty string; the total
  length plus one is taken to fit \<^verbatim>\<open>size_t\<close>.)
\<close>

theorem transcribe_concatenates_segments:
  assumes "ctx = Some c" and "samples = Some smp" and "0 < n_samples"
    and "whisper_full E c (transcribe_params E) smp n_samples (engine_state w) = (0, e)"
    and "whisper_full_n_segments E c e = n" and "1 \<le> n"
    and "length (concat (map (segment_string E c e) [0..n - 1])) + 1 < 2 ^ 64"
    and "malloc L (of_nat (length (concat (map (segment_string E c e) [0..n - 1]))) + 1) = Some init"
  shows "whisper_kit_transcribe E L ctx samples n_samples w =
           (Returns (Some (concat (map (segment_string E c e) [0..n - 1]) @ [0])),
            w\<lparr>engine_state := e,
              calls := calls w
                @ [Full_default_params WHISPER_SAMPLING_GREEDY,
                   Whisper_full c (transcribe_params E) smp n_samples,
                   Full_n_segments c]
                @ map (Full_get_segment_text c) [0..n - 1]
                @ [Malloc (of_nat (length (concat (map (segment_string E c e) [0..n - 1]))) + 1)]
                @ map (Full_get_segment_text c) [0..n - 1]\<rparr>)"
proof -
  let ?w = "w\<lparr>engine_state := e,
              calls := calls w @ [Full_default_params WHISPER_SAMPLING_GREEDY,
                                  Whisper_full c (transcribe_params E) smp n_samples]\<rparr>"
  have n: "whisper_full_n_segments E c (engine_state ?w) = n" "n \<noteq> 0"
    using assms(5,6) by simp_all
  have fits: "length (transcript E c (engine_state ?w) 0 n) + 1 < 2 ^ 64"
    using assms(7) by (simp add: transcript_def)
  have alloc: "malloc L (of_nat (length (transcript E c (engine_state ?w) 0 n)) + 1) = Some init"
    using assms(8) by (simp add: transcript_def)
  show ?thesis
    unfolding transcribe_decoded [OF assms(1-4)] collect_segments_eq [OF n fits alloc]
    by (simp add: transcript_def)
qed

theorem transcribe_concatenates_segments_witness:
  "whisper_full example_engine 1 (transcribe_params example_engine) [0, 0, 0] 3
       (engine_state example_world) = (0, [Some [0x48, 0x69], None, Some [0x20, 0x79, 0x6F, 0x75]])
   \<and> whisper_kit_transcribe example_engine example_libc (Some 1) (Some [0, 0, 0]) 3 example_world =
       (Returns (Some [0x48, 0x69, 0x20, 0x79, 0x6F, 0x75, 0]),
        \<lparr>engine_state = [Some [0x48, 0x69], None, Some [0x20, 0x79, 0x6F, 0x75]],
         stderr = [],
         calls = [Full_default_params WHISPER_SAMPLING_GREEDY,
                  Whisper_full 1 (transcribe_params example_engine) [0, 0, 0] 3,
                  Full_n_segments 1,
                  Full_get_segment_text 1 0, Full_get_segment_text 1 1, Full_get_segment_text 1 2,
                  Malloc 7,
                  Full_get_segment_text 1 0, Full_get_segment_text 1 1,
                  Full_get_segment_text 1 2]\<rparr>)"
proof -
  let ?e = "[Some [0x48, 0x69], None, Some [0x20, 0x79, 0x6F, 0x75]] :: byte list option list"
  have decode: "whisper_full example_engine 1 (transcribe_params example_engine) [0, 0, 0] 3
                  (engine_state example_world) = (0, ?e)"
    by (simp add: example_engine_def example_world_def)
  have count: "whisper_full_n_segments example_engine 1 ?e = 3"
    by (simp add: example_engine_def)
  have texts: "concat (map (segment_string example_engine 1 ?e) [0..3 - 1])
                 = [0x48, 0x69, 0x20, 0x79, 0x6F, 0x75]"
    by (simp add: segment_string_def example_engine_def c_string_def upto_rec1)
  have fits: "length (concat (map (segment_string example_engine 1 ?e) [0..3 - 1])) + 1 < 2 ^ 64"
    unfolding texts by simp
  have alloc: "malloc example_libc
                 (of_nat (length (concat (map (segment_string example_engine 1 ?e) [0..3 - 1]))) + 1)
                 = Some (\<lambda>i. 0xAA)"
    by (simp add: example_libc_def)
  show ?thesis
    using decode
      transcribe_concatenates_segments [OF refl refl _ decode count _ fits alloc, unfolded texts]
    by (simp add: example_world_def upto_rec1)
qed

text \<open>
  C2, as the code has it: when the decoder succeeds and the engine reports no segment,
  whisper_kit_transcribe asks for one byte and returns the empty string (a block
  holding the terminator alone) if the allocation succeeds, and \<^verbatim>\<open>NULL\<close> if it fails.
\<close>

theorem transcribe_no_segments:
  assumes "ctx = Some c" and "samples = Some smp" and "0 < n_samples"
    and "whisper_full E c (transcribe_params E) smp n_samples (engine_state w) = (0, e)"
    and "whisper_full_n_segments E c e = 0"
  shows "whisper_kit_transcribe E L ctx samples n_samples w =
           (Returns (if malloc L 1 = None then None else Some [0]),
            w\<lparr>engine_state := e,
              calls := calls w @ [Full_default_params WHISPER_SAMPLING_GREEDY,
                                  Whisper_full c (transcribe_params E) smp n_samples,
                                  Full_n_segments c, Malloc 1]\<rparr>)"
  unfolding transcribe_decoded [OF assms(1-4)] using assms(5)
  by (auto simp: collect_segments_def call_full_n_segments_def call_malloc_def log_call_def
        store_def)

theorem transcribe_no_segments_witness:
  "whisper_full example_engine 1 (transcribe_params example_engine) [0, 0] 2
       (engine_state example_world) = (0, [])
   \<and> whisper_full_n_segments example_engine 1 [] = 0
   \<and> whisper_kit_transcribe example_engine example_libc (Some 1) (Some [0, 0]) 2 example_world =
       (Returns (Some [0]),
        \<lparr>engine_state = [], stderr = [],
         calls = [Full_default_params WHISPER_SAMPLING_GREEDY,
                  Whisper_full 1 (transcribe_params example_engine) [0, 0] 2,
                  Full_n_segments 1, Malloc 1]\<rparr>)"
proof -
  have decode: "whisper_full example_engine 1 (transcribe_params example_engine) [0, 0] 2
                  (engine_state example_world) = (0, [])"
    by (simp add: example_engine_def example_world_def)
  have count: "whisper_full_n_segments example_engine 1 [] = 0"
    by (simp add: example_engine_def)
  show ?thesis
    using decode count
      transcribe_no_segments [OF refl refl _ decode count, of example_libc]
    by (simp add: example_world_def example_libc_def)
qed

text \<open>
  C2 as stated fails: with an allocator that has no memory left, a successful decode
  with no segment returns \<^verbatim>\<open>NULL\<close>.
\<close>

theorem transcribe_no_segments_allocation_failure:
  "whisper_full example_engine 1 (transcribe_params example_engine) [0, 0] 2
       (engine_state example_world) = (0, [])
   \<and> whisper_full_n_segments example_engine 1 [] = 0
   \<and> fst (whisper_kit_transcribe example_engine exhausted_libc (Some 1) (Some [0, 0]) 2
         example_world) = Returns None"
  by (simp add: whisper_kit_transcribe_def call_full_default_params_def call_whisper_full_def
        collect_segments_def call_full_n_segments_def call_malloc_def log_call_def
        example_engine_def example_world_def exhausted_libc_def)

text \<open>
  C3: a call of whisper_kit_transcribe with a null handle, a null sample buffer or a
  sample count that is not positive returns \<^verbatim>\<open>NULL\<close> and leaves the world as it
  was: nothing is logged, the engine state is untouched and no call is made, so the
  decoder is not invoked.
\<close>

theorem transcribe_rejects_invalid_arguments:
  assumes "ctx = None \<or> samples = None \<or> n_samples \<le> 0"
  shows "whisper_kit_transcribe E L ctx samples n_samples w = (Returns None, w)"
  using assms by (auto simp: whisper_kit_transcribe_def split: option.split)

theorem transcribe_rejects_invalid_arguments_witness:
  "whisper_kit_transcribe example_engine example_libc (Some 1) None 0 example_world
     = (Returns None, example_world)
   \<and> whisper_kit_transcribe example_engine example_libc (Some 1) (Some [0, 0, 0]) 0 example_world
     = (Returns None, example_world)
   \<and> whisper_kit_transcribe example_engine example_libc None (Some [0, 0, 0]) 3 example_world
     = (Returns None, example_world)"
  using transcribe_rejects_invalid_arguments [of "Some 1" None 0 example_engine example_libc example_world]
    transcribe_rejects_invalid_arguments [of "Some 1" "Some [0, 0, 0]" 0 example_engine example_libc example_world]
    transcribe_rejects_invalid_arguments [of None "Some [0, 0, 0]" 3 example_engine example_libc example_world]
  by simp

text \<open>
  C4: when the decoder returns a status other than zero, whisper_kit_transcribe prints
  the status to the error stream and returns \<^verbatim>\<open>NULL\<close>; the only calls it has made
  are the default-parameter constructor and the decoder itself, so the segment count
  and the segment texts are never read.
\<close>

theorem transcribe_decode_failure:
  assumes "ctx = Some c" and "samples = Some smp" and "0 < n_samples"
    and "whisper_full E c (transcribe_params E) smp n_samples (engine_state w) = (result, e)"
    and "result \<noteq> 0"
  shows "whisper_kit_transcribe E L ctx samples n_samples w =
           (Returns None,
            w\<lparr>engine_state := e,
              stderr := stderr w @ ''whisper_kit: transcription failed with error ''
                          @ show_int result @ [CHR 0x0A],
              calls := calls w @ [Full_default_params WHISPER_SAMPLING_GREEDY,
                                  Whisper_full c (transcribe_params E) smp n_samples]\<rparr>)"
  using assms
  by (simp add: whisper_kit_transcribe_def call_full_default_params_def call_whisper_full_def
        transcribe_params_def log_call_def fprintf_stderr_def)

theorem transcribe_decode_failure_witness:
  "whisper_full example_engine 1 (transcribe_params example_engine) [0] 1
       (engine_state example_world) = (- 3, [])
   \<and> whisper_kit_transcribe example_engine example_libc (Some 1) (Some [0]) 1 example_world =
       (Returns None,
        \<lparr>engine_state = [],
         stderr = ''whisper_kit: transcription failed with error -3'' @ [CHR 0x0A],
         calls = [Full_default_params WHISPER_SAMPLING_GREEDY,
                  Whisper_full 1 (transcribe_params example_engine) [0] 1]\<rparr>)"
proof -
  have decode: "whisper_full example_engine 1 (transcribe_params example_engine) [0] 1
                  (engine_state example_world) = (- 3, [])"
    by (simp add: example_engine_def example_world_def)
  have "show_int (- 3) = ''-3''"
    by (simp add: show_int_def decimal.simps)
  then show ?thesis
    using decode transcribe_decode_failure [OF refl refl _ decode, of example_libc]
    by (simp add: example_world_def)
qed

text \<open>
  C5: a call of whisper_kit_transcribe invokes the decoder at most once, exactly when
  its three arguments pass the checks, and always with the same parameters, whatever
  the handle, the samples and the count: the engine's defaults for greedy sampling with
  single-segment mode on, \<open>max_tokens\<close> 0, language \<^verbatim>\<open>en\<close>, 4 threads, blank and
  non-speech suppression on, and the four print flags (and \<open>speed_up\<close>) off.
\<close>

theorem transcribe_fixed_decode_params:
  "decode_params_of (calls (snd (whisper_kit_transcribe E L ctx samples n_samples w))) =
     decode_params_of (calls w)
       @ (if ctx \<noteq> None \<and> samples \<noteq> None \<and> 0 < n_samples then [transcribe_params E] else [])
   \<and> single_segment (transcribe_params E) = True
   \<and> max_tokens (transcribe_params E) = 0
   \<and> language (transcribe_params E) = Some ''en''
   \<and> n_threads (transcribe_params E) = 4
   \<and> suppress_blank (transcribe_params E) = True
   \<and> suppress_nst (transcribe_params E) = True
   \<and> print_progress (transcribe_params E) = False
   \<and> print_special (transcribe_params E) = False
   \<and> print_realtime (transcribe_params E) = False
   \<and> print_timestamps (transcribe_params E) = False
   \<and> speed_up (transcribe_params E) = False
   \<and> whisper_full_params.more (transcribe_params E) =
       whisper_full_params.more (whisper_full_default_params E WHISPER_SAMPLING_GREEDY)"
proof -
  have fields: "single_segment (transcribe_params E) = True
      \<and> max_tokens (transcribe_params E) = 0
      \<and> language (transcribe_params E) = Some ''en''
      \<and> n_threads (transcribe_params E) = 4
      \<and> suppress_blank (transcribe_params E) = True
      \<and> suppress_nst (transcribe_params E) = True
      \<and> print_progress (transcribe_params E) = False
      \<and> print_special (transcribe_params E) = False
      \<and> print_realtime (transcribe_params E) = False
      \<and> print_timestamps (transcribe_params E) = False
      \<and> speed_up (transcribe_params E) = False
      \<and> whisper_full_params.more (transcribe_params E) =
          whisper_full_params.more (whisper_full_default_params E WHISPER_SAMPLING_GREEDY)"
    by (simp add: transcribe_params_def set_transcribe_params_def)
  have trace: "decode_params_of (calls (snd (whisper_kit_transcribe E L ctx samples n_samples w))) =
     decode_params_of (calls w)
       @ (if ctx \<noteq> None \<and> samples \<noteq> None \<and> 0 < n_samples then [transcribe_params E] else [])"
  proof (cases "ctx = None \<or> samples = None \<or> n_samples \<le> 0")
    case True
    then show ?thesis
      by (auto simp: whisper_kit_transcribe_def split: option.split)
  next
    case False
    then obtain c smp where valid: "ctx = Some c" "samples = Some smp" "0 < n_samples"
      by auto
    obtain result e where
      decode: "whisper_full E c (transcribe_params E) smp n_samples (engine_state w) = (result, e)"
      by (cases "whisper_full E c (transcribe_params E) smp n_samples (engine_state w)")
    let ?w = "w\<lparr>engine_state := e,
                calls := calls w @ [Full_default_params WHISPER_SAMPLING_GREEDY,
                                    Whisper_full c (transcribe_params E) smp n_samples]\<rparr>"
    have w: "decode_params_of (calls ?w) = decode_params_of (calls w) @ [transcribe_params E]"
      by (simp add: decode_params_of_def)
    have "snd (whisper_kit_transcribe E L ctx samples n_samples w) =
            (if result \<noteq> 0
             then fprintf_stderr (''whisper_kit: transcription failed with error ''
                                    @ show_int result @ [CHR 0x0A]) ?w
             else snd (collect_segments E L c ?w))"
      using valid decode
      by (simp add: whisper_kit_transcribe_def call_full_default_params_def
            call_whisper_full_def transcribe_params_def log_call_def)
    then show ?thesis
      using valid w collect_segments_decode_params [of E L c ?w]
      by (simp add: fprintf_stderr_def)
  qed
  from trace fields show ?thesis
    by simp
qed

theorem transcribe_fixed_decode_params_witness:
  "decode_params_of
     (calls (snd (whisper_kit_transcribe example_engine example_libc (Some 1) (Some [0, 0, 0]) 3
        example_world))) =
     [\<lparr>n_threads = 4, max_tokens = 0, speed_up = False, single_segment = True,
       print_special = False, print_progress = False, print_realtime = False,
       print_timestamps = False, language = Some ''en'', suppress_blank = True,
       suppress_nst = True\<rparr>]"
proof -
  have "transcribe_params example_engine =
          \<lparr>n_threads = 4, max_tokens = 0, speed_up = False, single_segment = True,
           print_special = False, print_progress = False, print_realtime = False,
           print_timestamps = False, language = Some ''en'', suppress_blank = True,
           suppress_nst = True\<rparr>"
    by (simp add: transcribe_params_def set_transcribe_params_def example_engine_def)
  then show ?thesis
    using transcribe_fixed_decode_params
            [of example_engine example_libc "Some 1" "Some [0, 0, 0]" 3 example_world]
    by (simp add: example_world_def decode_params_of_def)
qed

text \<open>
  C10: in a call of whisper_kit_transcribe where the decoder succeeds, the segment
  count is not zero and the allocation succeeds, a segment whose text is \<^verbatim>\<open>NULL\<close>
  adds nothing to the length computed by the first loop and nothing to the string built
  by the second. So the second loop stays inside the block (the call returns, it does
  not run into undefined behaviour), the string it builds has exactly the computed
  length, and with its terminator it fills the allocated block of that length plus one.
  (The total length plus one is taken to fit \<^verbatim>\<open>size_t\<close>.)
\<close>

theorem null_texts_skipped_in_both_passes:
  assumes "ctx = Some c" and "samples = Some smp" and "0 < n_samples"
    and "whisper_full E c (transcribe_params E) smp n_samples (engine_state w) = (0, e)"
    and "whisper_full_n_segments E c e = n" and "n \<noteq> 0"
    and "(\<Sum>i\<leftarrow>[0..n - 1]. case whisper_full_get_segment_text E c i e of
                              None \<Rightarrow> 0 | Some t \<Rightarrow> length (c_string t)) + 1 < 2 ^ 64"
    and "total_len_loop E c n 0 0
           (w\<lparr>engine_state := e,
              calls := calls w @ [Full_default_params WHISPER_SAMPLING_GREEDY,
                                  Whisper_full c (transcribe_params E) smp n_samples,
                                  Full_n_segments c]\<rparr>) = (total_len, w')"
    and "malloc L (total_len + 1) = Some init"
  shows "unat total_len =
           (\<Sum>i\<leftarrow>[0..n - 1]. case whisper_full_get_segment_text E c i e of
                                None \<Rightarrow> 0 | Some t \<Rightarrow> length (c_string t))
       \<and> fst (whisper_kit_transcribe E L ctx samples n_samples w) =
           Returns (Some (concat (map (\<lambda>i. case whisper_full_get_segment_text E c i e of
                                             None \<Rightarrow> [] | Some t \<Rightarrow> c_string t) [0..n - 1])
                          @ [0]))
       \<and> length (concat (map (\<lambda>i. case whisper_full_get_segment_text E c i e of
                                     None \<Rightarrow> [] | Some t \<Rightarrow> c_string t) [0..n - 1]))
           = unat total_len
       \<and> unat (total_len + 1) = unat total_len + 1"
proof -
  let ?w = "w\<lparr>engine_state := e,
              calls := calls w @ [Full_default_params WHISPER_SAMPLING_GREEDY,
                                  Whisper_full c (transcribe_params E) smp n_samples]\<rparr>"
  let ?T = "transcript E c e 0 n"
  have n: "whisper_full_n_segments E c (engine_state ?w) = n" "n \<noteq> 0"
    using assms(5,6) by simp_all
  have fits: "length (transcript E c (engine_state ?w) 0 n) + 1 < 2 ^ 64"
    using assms(7) by (simp add: length_transcript)
  have "log_call (Full_n_segments c) ?w =
          w\<lparr>engine_state := e,
            calls := calls w @ [Full_default_params WHISPER_SAMPLING_GREEDY,
                                Whisper_full c (transcribe_params E) smp n_samples,
                                Full_n_segments c]\<rparr>"
    by (simp add: log_call_def)
  then have total_len: "total_len = of_nat (length ?T)"
    using assms(8) total_len_loop_eq [of E c n 0 0 "log_call (Full_n_segments c) ?w"]
    by (simp add: log_call_def)
  have alloc: "malloc L (of_nat (length (transcript E c (engine_state ?w) 0 n)) + 1) = Some init"
    using assms(9) by (simp add: total_len)
  have size: "unat total_len = length ?T" "unat (total_len + 1) = Suc (length ?T)"
    unfolding total_len using unat_size_plus_one [of "length ?T"] fits by simp_all
  have "fst (whisper_kit_transcribe E L ctx samples n_samples w) = Returns (Some (?T @ [0]))"
    unfolding transcribe_decoded [OF assms(1-4)] collect_segments_eq [OF n fits alloc] by simp
  then show ?thesis
    using size by (simp add: length_transcript [symmetric] transcript_cases [symmetric])
qed

theorem null_texts_skipped_in_both_passes_witness:
  "whisper_full example_engine 1 (transcribe_params example_engine) [0, 0, 0] 3
       (engine_state example_world) = (0, [Some [0x48, 0x69], None, Some [0x20, 0x79, 0x6F, 0x75]])
   \<and> whisper_full_get_segment_text example_engine 1 1
       [Some [0x48, 0x69], None, Some [0x20, 0x79, 0x6F, 0x75]] = None
   \<and> fst (total_len_loop example_engine 1 3 0 0
        (example_world
           \<lparr>engine_state := [Some [0x48, 0x69], None, Some [0x20, 0x79, 0x6F, 0x75]],
            calls := calls example_world
              @ [Full_default_params WHISPER_SAMPLING_GREEDY,
                 Whisper_full 1 (transcribe_params example_engine) [0, 0, 0] 3,
                 Full_n_segments 1]\<rparr>)) = 6
   \<and> fst (whisper_kit_transcribe example_engine example_libc (Some 1) (Some [0, 0, 0]) 3
        example_world)
     = Returns (Some [0x48, 0x69, 0x20, 0x79, 0x6F, 0x75, 0])
   \<and> unat (6 + 1 :: size_t) = 7"
proof -
  let ?e = "[Some [0x48, 0x69], None, Some [0x20, 0x79, 0x6F, 0x75]] :: byte list option list"
  let ?w = "example_world
              \<lparr>engine_state := ?e,
               calls := calls example_world
                 @ [Full_default_params WHISPER_SAMPLING_GREEDY,
                    Whisper_full 1 (transcribe_params example_engine) [0, 0, 0] 3,
                    Full_n_segments 1]\<rparr>"
  have decode: "whisper_full example_engine 1 (transcribe_params example_engine) [0, 0, 0] 3
                  (engine_state example_world) = (0, ?e)"
    by (simp add: example_engine_def example_world_def)
  have count: "whisper_full_n_segments example_engine 1 ?e = 3"
    by (simp add: example_engine_def)
  have null: "whisper_full_get_segment_text example_engine 1 1 ?e = None"
    by (simp add: example_engine_def)
  have first: "total_len_loop example_engine 1 3 0 0 ?w
                 = (6, ?w\<lparr>calls := calls ?w @ map (Full_get_segment_text 1) [0..3 - 1]\<rparr>)"
    by (simp add: total_len_loop_eq transcript_def segment_string_def c_string_def
          example_engine_def upto_rec1)
  have fits: "(\<Sum>i\<leftarrow>[0..3 - 1]. case whisper_full_get_segment_text example_engine 1 i ?e of
                                None \<Rightarrow> 0 | Some t \<Rightarrow> length (c_string t)) + 1 < 2 ^ 64"
    by (simp add: example_engine_def c_string_def upto_rec1)
  have alloc: "malloc example_libc (6 + 1) = Some (\<lambda>i. 0xAA)"
    by (simp add: example_libc_def)
  have "fst (total_len_loop example_engine 1 3 0 0 ?w) = 6"
    by (simp only: first fst_conv)
  then show ?thesis
    using decode null
      null_texts_skipped_in_both_passes [OF refl refl _ decode count _ fits first alloc]
    by (simp add: example_engine_def c_string_def upto_rec1)
qed

subsection \<open>Loading a model\<close>

text \<open>
  C7: when the load routine returns \<^verbatim>\<open>NULL\<close>, whisper_kit_init returns \<^verbatim>\<open>NULL\<close>
  after printing a line with the model path to the error stream, having called the load
  routine once; when the load routine returns a context, whisper_kit_init returns that
  context and prints nothing.
\<close>

theorem init_load_result:
  assumes "whisper_init_from_file_with_params E model_path (init_params E) (engine_state w)
             = (loaded, e)"
  shows "(loaded = None \<longrightarrow>
            whisper_kit_init E model_path w =
              (None,
               w\<lparr>engine_state := e,
                 stderr := stderr w @ ''whisper_kit: failed to load model from ''
                             @ model_path @ [CHR 0x0A],
                 calls := calls w @ [Context_default_params,
                                     Init_from_file_with_params model_path (init_params E)]\<rparr>))
       \<and> (loaded \<noteq> None \<longrightarrow>
            whisper_kit_init E model_path w =
              (loaded,
               w\<lparr>engine_state := e,
                 calls := calls w @ [Context_default_params,
                                     Init_from_file_with_params model_path (init_params E)]\<rparr>))"
  using assms
  by (simp add: whisper_kit_init_def call_context_default_params_def init_params_def
        call_init_from_file_with_params_def log_call_def fprintf_stderr_def Let_def)

theorem init_load_result_witness:
  "whisper_kit_init example_engine ''missing.bin'' example_world =
     (None,
      \<lparr>engine_state = [],
       stderr = ''whisper_kit: failed to load model from missing.bin'' @ [CHR 0x0A],
       calls = [Context_default_params,
                Init_from_file_with_params ''missing.bin'' \<lparr>use_gpu = True\<rparr>]\<rparr>)
   \<and> whisper_kit_init example_engine ''base.en.bin'' example_world =
     (Some 1,
      \<lparr>engine_state = [], stderr = [],
       calls = [Context_default_params,
                Init_from_file_with_params ''base.en.bin'' \<lparr>use_gpu = True\<rparr>]\<rparr>)"
proof -
  have p: "init_params example_engine = \<lparr>use_gpu = True\<rparr>"
    by (simp add: init_params_def example_engine_def)
  have bad: "whisper_init_from_file_with_params example_engine ''missing.bin''
               (init_params example_engine) (engine_state example_world) = (None, [])"
    by (simp add: example_engine_def example_world_def)
  have good: "whisper_init_from_file_with_params example_engine ''base.en.bin''
                (init_params example_engine) (engine_state example_world) = (Some 1, [])"
    by (simp add: example_engine_def example_world_def)
  show ?thesis
    using init_load_result [OF bad] init_load_result [OF good]
    by (simp add: p example_world_def)
qed

text \<open>
  C6, as the code has it: whisper_kit_init takes the engine's default configuration,
  sets \<open>use_gpu\<close> in it whatever the build (the assignment is under no preprocessor
  condition), leaves every other field alone, and then calls the load routine once with
  that configuration.
\<close>

theorem init_always_requests_gpu:
  "load_params_of (calls (snd (whisper_kit_init E model_path w)))
     = load_params_of (calls w) @ [init_params E]
   \<and> use_gpu (init_params E) = True
   \<and> whisper_context_params.more (init_params E)
       = whisper_context_params.more (whisper_context_default_params E)
   \<and> calls (snd (whisper_kit_init E model_path w))
       = calls w @ [Context_default_params, Init_from_file_with_params model_path (init_params E)]"
  by (auto simp: whisper_kit_init_def call_context_default_params_def init_params_def
        call_init_from_file_with_params_def log_call_def fprintf_stderr_def load_params_of_def
        Let_def split: prod.split)

theorem init_always_requests_gpu_witness:
  "calls (snd (whisper_kit_init example_engine ''base.en.bin'' example_world)) =
     [Context_default_params, Init_from_file_with_params ''base.en.bin'' \<lparr>use_gpu = True\<rparr>]
   \<and> use_gpu (whisper_context_default_params example_engine) = False"
  using init_always_requests_gpu [of example_engine "''base.en.bin''" example_world]
  by (simp add: init_params_def example_engine_def example_world_def)

text \<open>
  C6 as stated fails: in a build without \<^verbatim>\<open>GGML_USE_METAL\<close>,
  whisper_kit_metal_available reports false and whisper_kit_init still requests the GPU.
\<close>

theorem init_requests_gpu_without_metal:
  "fst (whisper_kit_metal_available \<lparr>GGML_USE_METAL = False\<rparr> example_world) = False
   \<and> map use_gpu (load_params_of (calls (snd (whisper_kit_init example_engine ''base.en.bin''
         example_world)))) = [True]"
  by (simp add: whisper_kit_metal_available_def whisper_kit_init_def
        call_context_default_params_def call_init_from_file_with_params_def log_call_def
        load_params_of_def example_engine_def example_world_def Let_def)

subsection \<open>Releasing and capabilities\<close>

text \<open>
  C8: whisper_kit_free on a null handle and whisper_kit_free_string on a null string
  leave the world as it was: neither the engine's free routine nor the deallocator is
  called, and nothing else changes.
\<close>

theorem release_null_is_noop:
  "whisper_kit_free E None w = w \<and> whisper_kit_free_string None w = w"
  by (simp add: whisper_kit_free_def whisper_kit_free_string_def)

theorem release_null_is_noop_witness:
  "whisper_kit_free example_engine None example_world = example_world
   \<and> whisper_kit_free_string None example_world = example_world
   \<and> calls (whisper_kit_free example_engine (Some 1) example_world) = [Whisper_free 1]
   \<and> calls (whisper_kit_free_string (Some [0]) example_world) = [Free [0]]"
  using release_null_is_noop [of example_engine example_world]
  by (simp add: whisper_kit_free_def whisper_kit_free_string_def call_whisper_free_def
        call_free_def log_call_def example_world_def)

text \<open>
  C9: whisper_kit_version returns the literal \<^verbatim>\<open>1.0.0\<close> and whisper_kit_metal_available
  returns the value of the build flag; both leave the world as it was, and neither
  result depends on the world (so neither consults the engine).
\<close>

theorem capabilities_are_pure:
  "whisper_kit_version w = (''1.0.0'', w)
   \<and> fst (whisper_kit_version w) = fst (whisper_kit_version w')
   \<and> whisper_kit_metal_available B w = (GGML_USE_METAL B, w)
   \<and> fst (whisper_kit_metal_available B w) = fst (whisper_kit_metal_available B w')"
  by (simp add: whisper_kit_version_def whisper_kit_metal_available_def)

theorem capabilities_are_pure_witness:
  "whisper_kit_version example_world = (''1.0.0'', example_world)
   \<and> whisper_kit_metal_available \<lparr>GGML_USE_METAL = True\<rparr> example_world = (True, example_world)
   \<and> whisper_kit_metal_available \<lparr>GGML_USE_METAL = False\<rparr> example_world = (False, example_world)"
  using capabilities_are_pure [of example_world example_world "\<lparr>GGML_USE_METAL = True\<rparr>"]
    capabilities_are_pure [of example_world example_world "\<lparr>GGML_USE_METAL = False\<rparr>"]
  by simp

end
